theory Spec2Isabelle
  imports Main "HOL-Library.Char_ord" "HOL-Library.List_Lexorder"
begin

section \<open>Python values seen by the loader (base.py)\<close>

text \<open>
  The loader runs code it does not own. What that code does is an input of the model:
  an exception raised by it is either derived from \<open>Exception\<close> (caught by the
  clauses \<open>except Exception\<close> of base.py) or derived from \<open>BaseException\<close> only
  (\<open>SystemExit\<close>, \<open>KeyboardInterrupt\<close>), which those clauses let through.
  The string is the name of the exception class.
\<close>

datatype pyexc = PyException string | PyBaseException string

fun is_Exception :: "pyexc \<Rightarrow> bool" where
  "is_Exception (PyException n) = True"
| "is_Exception (PyBaseException n) = False"

text \<open>
  \<open>sys.modules\<close>: the modules registered in the process, by name. A module object is
  named by the file it was created from. Code of the user runs on this registry and may
  change it (every \<open>import\<close> it executes adds entries), so what such code does is a
  function from the registry it finds to its result and the registry it leaves.
\<close>

type_synonym registry = "string \<rightharpoonup> string"

text \<open>Identity of an object, for the test \<open>obj is not AgentBase\<close>.\<close>

datatype obj_id = AgentBase_id | AgentProtocol_id | User_id string

text \<open>
  The attribute \<open>on_turn\<close> of an instance, as \<open>hasattr(agent, "on_turn")\<close> and
  \<open>callable(agent.on_turn)\<close> observe it.
\<close>

datatype attr = Absent | NonCallable | Callable

record agent_instance =
  made_by :: obj_id
  on_turn_attr :: attr

datatype call_result = CallRaises pyexc | CallReturns agent_instance

text \<open>
  A module attribute other than \<open>None\<close>, described by what base.py observes of it:
  \<open>isinstance(obj, type)\<close>, \<open>hasattr(obj, "on_turn")\<close>,
  \<open>getattr(obj, "GAME", None)\<close> (a declared tag is a string) and the call \<open>obj()\<close>,
  which runs the constructor on the registry. Calling an object that is not callable
  raises \<open>TypeError\<close>.
\<close>

record pyobj =
  oid :: obj_id
  is_type :: bool
  has_on_turn :: bool
  GAME :: "string option"
  call :: "registry \<Rightarrow> call_result \<times> registry"

datatype pyval = PyNone | PyObj pyobj

text \<open>
  A module namespace: its attributes by name. \<open>dir(module)\<close> lists the names in
  sorted order (code point order, which is the lexicographic order on \<open>char list\<close>).
  The attributes Python adds itself (\<open>__name__\<close>, \<open>__doc__\<close>, ...) are no classes
  and are left out.
\<close>

type_synonym pymodule = "(string \<times> pyval) list"

definition dir_module :: "pymodule \<Rightarrow> string list" where
  "dir_module m = sort (remdups (map fst m))"

text \<open>
  The two classes base.py defines itself (lines 9-27 and 29-114). A \<open>Protocol\<close> class
  cannot be instantiated; \<open>AgentBase\<close> has no constructor of its own.
\<close>

definition AgentProtocol :: pyobj where
  "AgentProtocol =
     \<lparr>oid = AgentProtocol_id, is_type = True, has_on_turn = True, GAME = None,
      call = (\<lambda>modules. (CallRaises (PyException ''TypeError''), modules))\<rparr>"

definition AgentBase :: pyobj where
  "AgentBase =
     \<lparr>oid = AgentBase_id, is_type = True, has_on_turn = True, GAME = None,
      call = (\<lambda>modules.
        (CallReturns \<lparr>made_by = AgentBase_id, on_turn_attr = Callable\<rparr>, modules))\<rparr>"

section \<open>The world the loader runs in\<close>

text \<open>
  A file: whether \<open>spec_from_file_location\<close> yields a spec with a loader, and what
  \<open>exec_module\<close> does with the file's contents, given the name the module is
  evaluated under (its \<open>__name__\<close>) and the registry: the body raises or runs to the
  end and leaves a module, and it leaves the registry with what it imported.
\<close>

datatype exec_result = ExecRaises pyexc | ExecOk pymodule

record pyfile =
  has_spec :: bool
  body :: "string \<Rightarrow> registry \<Rightarrow> exec_result \<times> registry"

text \<open>
  \<open>Path(agent_path).resolve()\<close> returns the resolved path or raises (\<open>ValueError\<close>
  for a NUL byte, \<open>RuntimeError\<close> for a symlink loop). \<open>path.exists()\<close> returns
  \<open>False\<close>, returns \<open>True\<close> (the file is then at hand) or raises the \<open>OSError\<close>
  of \<open>stat\<close> that it does not take for absence (a name that is too long, a directory
  that may not be searched).
\<close>

datatype resolve_result = ResolveRaises pyexc | Resolved string

datatype stat_result = StatRaises pyexc | Missing | Present pyfile

text \<open>Code of the user that has run: a module body, or a call of the candidate.\<close>

datatype event = Executed string | Called obj_id

text \<open>
  \<open>resolve\<close> and \<open>fs\<close> are the file system as the two calls above see it,
  \<open>sys_modules\<close> is the registry and \<open>events\<close> the trace of user code run so far.
\<close>

record world =
  resolve :: "string \<Rightarrow> resolve_result"
  fs :: "string \<Rightarrow> stat_result"
  sys_modules :: registry
  events :: "event list"

text \<open>
  \<open>path.suffix\<close> as pathlib computes it on a POSIX path: with \<open>name\<close> the final
  component and \<open>i = name.rfind('.')\<close>, it is \<open>name[i:]\<close> when
  \<open>0 < i < len(name) - 1\<close> and the empty string otherwise.
\<close>

definition final_name :: "string \<Rightarrow> string" where
  "final_name s = rev (takeWhile (\<lambda>c. c \<noteq> CHR ''/'') (rev s))"

definition pathlib_suffix :: "string \<Rightarrow> string" where
  "pathlib_suffix s =
     (let name = final_name s;
          ext = rev (takeWhile (\<lambda>c. c \<noteq> CHR ''.'') (rev name))
      in if length ext + 1 < length name \<and> ext \<noteq> [] then CHR ''.'' # ext else [])"

section \<open>load_agent (base.py, lines 122-200)\<close>

text \<open>
  base.py has one exception class, \<open>AgentLoadError\<close>, and tells its failures apart
  by their messages. Every \<open>raise AgentLoadError(...)\<close> is one constructor here, in
  the order of the source (lines 143, 146, 158, 177, 185, 194, 198). \<open>kind\<close> relates
  each of them to the kind of load error that section 4.2 of the specification names
  for it.
\<close>

datatype AgentLoadError =
    FileNotFound string
  | NotPythonFile string
  | ModuleLoadFailed pyexc
  | NoAgentClass
  | GameMismatch string string
  | InstantiateFailed pyexc
  | NoOnTurnMethod

datatype LoadError_kind =
  NotFound | InvalidFormat | ExecutionFailure | ContractViolation | GameMismatchKind

fun kind :: "AgentLoadError \<Rightarrow> LoadError_kind" where
  "kind (FileNotFound p) = NotFound"
| "kind (NotPythonFile p) = InvalidFormat"
| "kind (ModuleLoadFailed e) = ExecutionFailure"
| "kind NoAgentClass = ContractViolation"
| "kind (GameMismatch g e) = GameMismatchKind"
| "kind (InstantiateFailed e) = ExecutionFailure"
| "kind NoOnTurnMethod = ContractViolation"

text \<open>
  What a call of the loader does: it returns, raises \<open>AgentLoadError\<close>, or lets an
  exception of other code through as it is.
\<close>

datatype 'a outcome = Returned 'a | Raised AgentLoadError | Propagated pyexc

text \<open>Truth value of \<open>str | None\<close>: \<open>None\<close> and the empty string are falsy.\<close>

fun truthy :: "string option \<Rightarrow> bool" where
  "truthy None = False"
| "truthy (Some s) = (s \<noteq> [])"

text \<open>
  Lines 148-158. The module is registered in \<open>sys.modules\<close> before its body runs,
  and the body runs on the registry that has the entry. The \<open>AgentLoadError\<close> raised
  for a missing spec is caught by the same \<open>except Exception\<close> and raised again.
\<close>

definition load_module :: "world \<Rightarrow> string \<Rightarrow> pyfile \<Rightarrow> pymodule outcome \<times> world" where
  "load_module w path f =
     (if \<not> has_spec f then (Raised (ModuleLoadFailed (PyException ''AgentLoadError'')), w)
      else
        (case body f ''user_agent'' ((sys_modules w)(''user_agent'' \<mapsto> path)) of
           (result, modules) \<Rightarrow>
             (let w1 = w\<lparr>sys_modules := modules, events := events w @ [Executed path]\<rparr>
              in (case result of
                    ExecRaises e \<Rightarrow>
                      (if is_Exception e then Raised (ModuleLoadFailed e)
                       else Propagated e, w1)
                  | ExecOk m \<Rightarrow> (Returned m, w1)))))"

text \<open>Lines 168-174: the loop over \<open>dir(module)\<close>, left at the first match.\<close>

fun scan_classes :: "pymodule \<Rightarrow> string list \<Rightarrow> pyval" where
  "scan_classes m [] = PyNone"
| "scan_classes m (name # names) =
     (case map_of m name of
        Some (PyObj obj) \<Rightarrow>
          if is_type obj \<and> oid obj \<noteq> AgentBase_id
          then (if has_on_turn obj then PyObj obj else scan_classes m names)
          else scan_classes m names
      | _ \<Rightarrow> scan_classes m names)"

text \<open>Lines 160-174.\<close>

definition find_agent_class :: "pymodule \<Rightarrow> pyval" where
  "find_agent_class m =
     (case map_of m ''Agent'' of
        Some v \<Rightarrow> v
      | None \<Rightarrow> scan_classes m (dir_module m))"

text \<open>Lines 190-200.\<close>

definition instantiate :: "world \<Rightarrow> pyobj \<Rightarrow> agent_instance outcome \<times> world" where
  "instantiate w agent_class =
     (case call agent_class (sys_modules w) of
        (result, modules) \<Rightarrow>
          (let w2 = w\<lparr>sys_modules := modules,
                     events := events w @ [Called (oid agent_class)]\<rparr>
           in (case result of
                 CallRaises e \<Rightarrow>
                   (if is_Exception e then Raised (InstantiateFailed e)
                    else Propagated e, w2)
               | CallReturns agent \<Rightarrow>
                   (if on_turn_attr agent \<noteq> Callable then Raised NoOnTurnMethod
                    else Returned agent, w2))))"

text \<open>Lines 176-200.\<close>

definition check_and_instantiate ::
  "world \<Rightarrow> pyval \<Rightarrow> string option \<Rightarrow> agent_instance outcome \<times> world" where
  "check_and_instantiate w agent_class expected_game =
     (case agent_class of
        PyNone \<Rightarrow> (Raised NoAgentClass, w)
      | PyObj c \<Rightarrow>
          let agent_game = GAME c in
          if truthy expected_game \<and> truthy agent_game \<and> agent_game \<noteq> expected_game
          then (Raised (GameMismatch (the agent_game) (the expected_game)), w)
          else instantiate w c)"

text \<open>
  Lines 140-200. Lines 140 and 142 are outside every \<open>try\<close>: what \<open>resolve\<close> or
  \<open>exists\<close> raises leaves \<open>load_agent\<close> as it is.
\<close>

definition load_agent ::
  "world \<Rightarrow> string \<Rightarrow> string option \<Rightarrow> agent_instance outcome \<times> world" where
  "load_agent w agent_path expected_game =
     (case resolve w agent_path of
        ResolveRaises e \<Rightarrow> (Propagated e, w)
      | Resolved path \<Rightarrow>
          (case fs w path of
             StatRaises e \<Rightarrow> (Propagated e, w)
           | Missing \<Rightarrow> (Raised (FileNotFound path), w)
           | Present f \<Rightarrow>
               if pathlib_suffix path \<noteq> ''.py'' then (Raised (NotPythonFile path), w)
               else
                 (case load_module w path f of
                    (Returned m, w1) \<Rightarrow>
                      check_and_instantiate w1 (find_agent_class m) expected_game
                  | (Raised e, w1) \<Rightarrow> (Raised e, w1)
                  | (Propagated e, w1) \<Rightarrow> (Propagated e, w1))))"

section \<open>get_agent_game (base.py, lines 203-234)\<close>

fun GAME_of :: "pyval \<Rightarrow> string option" where
  "GAME_of PyNone = None"
| "GAME_of (PyObj obj) = GAME obj"

text \<open>Lines 227-230: the loop over \<open>dir(module)\<close>, left at the first match.\<close>

fun scan_game :: "pymodule \<Rightarrow> string list \<Rightarrow> string option" where
  "scan_game m [] = None"
| "scan_game m (name # names) =
     (case map_of m name of
        Some (PyObj obj) \<Rightarrow>
          if is_type obj \<and> has_on_turn obj then GAME obj else scan_game m names
      | _ \<Rightarrow> scan_game m names)"

text \<open>Lines 222-230, on the module the body left.\<close>

definition peek_game :: "pymodule \<Rightarrow> string option" where
  "peek_game m =
     (case map_of m ''Agent'' of
        Some v \<Rightarrow> GAME_of v
      | None \<Rightarrow> scan_game m (dir_module m))"

text \<open>
  Lines 209-211 are outside the \<open>try\<close>, as in \<open>load_agent\<close>. Everything from line
  215 on is inside \<open>try ... except Exception: pass\<close>. The module is evaluated under
  the name \<open>user_agent_check\<close> and is not registered by \<open>get_agent_game\<close>; its body
  runs on the registry as it is.
\<close>

definition get_agent_game :: "world \<Rightarrow> string \<Rightarrow> string option outcome \<times> world" where
  "get_agent_game w agent_path =
     (case resolve w agent_path of
        ResolveRaises e \<Rightarrow> (Propagated e, w)
      | Resolved path \<Rightarrow>
          (case fs w path of
             StatRaises e \<Rightarrow> (Propagated e, w)
           | Missing \<Rightarrow> (Returned None, w)
           | Present f \<Rightarrow>
               if pathlib_suffix path \<noteq> ''.py'' then (Returned None, w)
               else if \<not> has_spec f then (Returned None, w)
               else
                 (case body f ''user_agent_check'' (sys_modules w) of
                    (result, modules) \<Rightarrow>
                      (let w1 = w\<lparr>sys_modules := modules,
                                 events := events w @ [Executed path]\<rparr>
                       in (case result of
                             ExecRaises e \<Rightarrow>
                               (if is_Exception e then Returned None
                                else Propagated e, w1)
                           | ExecOk m \<Rightarrow> (Returned (peek_game m), w1))))))"

section \<open>The multi-game agent (examples/multi_game_agent.py)\<close>

text \<open>
  The payloads are dictionaries; a field that is \<open>None\<close> here is a key the dictionary
  does not have, and the values have the types the docstrings give them.
  \<open>get_or\<close> is \<open>dict.get(key, default)\<close>.
\<close>

definition get_or :: "'a option \<Rightarrow> 'a \<Rightarrow> 'a" where
  "get_or v d = (case v of None \<Rightarrow> d | Some x \<Rightarrow> x)"

record bid =
  quantity :: "int option"
  face :: "int option"

record game_state =
  phase :: "string option"
  your_dice :: "int list option"
  messages :: "(string \<times> string) list option"
  current_bid :: "bid option"
  total_dice :: "int option"

record round_info =
  info_round_number :: "int option"
  info_game_id :: "string option"

text \<open>
  The dictionaries \<open>on_turn\<close> returns: \<open>{"type": "message", "text": t}\<close>,
  \<open>{"type": "commit", "choice": c}\<close>, \<open>{"action_type": "challenge"}\<close> and
  \<open>{"action_type": "bid", "quantity": q, "face": f}\<close>. A turn returns one of them or
  raises.
\<close>

datatype action = Message string | Commit string | Challenge | Bid int int

datatype turn_result = TurnRaises pyexc | TurnReturns action

text \<open>The attributes of the agent, and \<open>__init__\<close> (lines 20-23).\<close>

record multi_game_agent =
  round_number :: int
  current_game_type :: "string option"
  all_game_rules :: "(string \<times> string) list"

definition Agent_init :: multi_game_agent where
  "Agent_init = \<lparr>round_number = 0, current_game_type = None, all_game_rules = []\<rparr>"

text \<open>Lines 44-49 (the \<open>print\<close> is left out).\<close>

definition on_round_start :: "multi_game_agent \<Rightarrow> round_info \<Rightarrow> multi_game_agent" where
  "on_round_start self info =
     self\<lparr>round_number := get_or (info_round_number info) 1,
          current_game_type := Some (get_or (info_game_id info) ''split-or-steal'')\<rparr>"

text \<open>Lines 72-91, \<open>_handle_split_or_steal\<close> in the source.\<close>

definition handle_split_or_steal :: "game_state \<Rightarrow> string option \<Rightarrow> action" where
  "handle_split_or_steal gs ph =
     (if ph = Some ''negotiate'' then
        (let msgs = get_or (messages gs) []
         in Message
              (if length msgs = 0 then ''Hello! Let's cooperate and both split.''
               else if length msgs = 1 then ''I'm committed to splitting. Let's both win!''
               else ''Agreed. Splitting it is.''))
      else if ph = Some ''commit'' then Commit ''split''
      else Message [])"

text \<open>
  Lines 106-109: \<open>counts\<close> is a dictionary, which keeps its keys in insertion order.
\<close>

fun dict_set :: "(int \<times> int) list \<Rightarrow> int \<Rightarrow> int \<Rightarrow> (int \<times> int) list" where
  "dict_set [] k v = [(k, v)]"
| "dict_set ((k', v') # kvs) k v =
     (if k' = k then (k, v) # kvs else (k', v') # dict_set kvs k v)"

fun count_faces :: "int list \<Rightarrow> (int \<times> int) list \<Rightarrow> (int \<times> int) list" where
  "count_faces [] counts = counts"
| "count_faces (d # ds) counts =
     count_faces ds
       (if d \<noteq> 1 then dict_set counts d (get_or (map_of counts d) 0 + 1) else counts)"

text \<open>Line 113: \<open>max\<close> with a key keeps the first of the largest.\<close>

fun max_by_count :: "(int \<times> int) list \<Rightarrow> int \<times> int \<Rightarrow> int \<times> int" where
  "max_by_count [] best = best"
| "max_by_count ((f, c) # rest) best =
     max_by_count rest (if snd best < c then (f, c) else best)"

text \<open>
  Line 137 multiplies the integer \<open>total_dice\<close> by the float \<open>0.5\<close>, which first
  converts the integer to a double: exactly below \<open>2 ^ 53\<close>, otherwise rounded to 53
  significant bits, ties to even, and with \<open>OverflowError\<close> when the rounded value
  reaches \<open>2 ^ 1024\<close>. The double is a whole number, given here as an integer.
\<close>

fun bit_length :: "nat \<Rightarrow> nat" where
  "bit_length n = (if n = 0 then 0 else Suc (bit_length (n div 2)))"

declare bit_length.simps [simp del]

definition round_to_double :: "nat \<Rightarrow> nat" where
  "round_to_double a =
     (if a < 2 ^ 53 then a
      else
        (let k = bit_length a - 53;
             q = a div 2 ^ k;
             rest = a mod 2 ^ k
         in (if 2 ^ (k - 1) < rest \<or> (rest = 2 ^ (k - 1) \<and> odd q) then q + 1 else q)
              * 2 ^ k))"

definition int_to_float :: "int \<Rightarrow> pyexc + int" where
  "int_to_float n =
     (let r = int (round_to_double (nat \<bar>n\<bar>))
      in if 2 ^ 1024 \<le> r then Inl (PyException ''OverflowError'')
         else Inr (if n < 0 then - r else r))"

text \<open>
  Lines 93-159, \<open>_handle_liars_dice\<close> in the source. Halving a double that is a whole
  number is exact, and Python compares an integer with a float exactly, so
  \<open>bid_quantity > total_dice * 0.5\<close> holds when twice the bid exceeds the double of
  \<open>total_dice\<close>. \<open>my_count\<close> (line 133) is computed and not used.
\<close>

definition handle_liars_dice :: "game_state \<Rightarrow> string option \<Rightarrow> turn_result" where
  "handle_liars_dice gs ph =
     (if ph \<noteq> Some ''bid'' then TurnReturns Challenge
      else
        (let my_dice = get_or (your_dice gs) [];
             total = get_or (total_dice gs) 10
         in (case current_bid gs of
               None \<Rightarrow>
                 (case count_faces my_dice [] of
                    [] \<Rightarrow> TurnReturns (Bid 2 6)
                  | first # rest \<Rightarrow>
                      (let best = max_by_count rest first;
                           wilds = int (length (filter (\<lambda>d. d = 1) my_dice))
                       in TurnReturns (Bid (min (snd best + wilds) total) (fst best))))
             | Some b \<Rightarrow>
                 (let bid_quantity = get_or (quantity b) 1;
                      bid_face = get_or (face b) 6
                  in (case int_to_float total of
                        Inl e \<Rightarrow> TurnRaises e
                      | Inr total_float \<Rightarrow>
                          TurnReturns
                            (if total_float < 2 * bid_quantity then Challenge
                             else if bid_face < 6 then Bid bid_quantity (bid_face + 1)
                             else if bid_quantity < total then Bid (bid_quantity + 1) 2
                             else Challenge))))))"

text \<open>
  Lines 51-70. The game type is set before the handler runs, so it is kept also when
  the handler raises.
\<close>

definition on_turn ::
  "multi_game_agent \<Rightarrow> game_state \<Rightarrow> turn_result \<times> multi_game_agent" where
  "on_turn self gs =
     (let ph = phase gs;
          self1 =
            (if current_game_type self = None then
               (if your_dice gs \<noteq> None
                then self\<lparr>current_game_type := Some ''liars-dice''\<rparr>
                else self\<lparr>current_game_type := Some ''split-or-steal''\<rparr>)
             else self)
      in if current_game_type self1 = Some ''liars-dice''
         then (handle_liars_dice gs ph, self1)
         else (TurnReturns (handle_split_or_steal gs ph), self1))"

section \<open>Vocabulary of the statements\<close>

text \<open>
  \<open>load_agent\<close> gets as far as the body of the file (lines 140-155 passed): the path
  resolves, the file exists, has the suffix \<open>.py\<close> and gets a spec. The value is the
  resolved path with what the body does on the registry that has the entry
  \<open>user_agent\<close>.
\<close>

definition load_run :: "world \<Rightarrow> string \<Rightarrow> (string \<times> exec_result \<times> registry) option" where
  "load_run w agent_path =
     (case resolve w agent_path of
        ResolveRaises e \<Rightarrow> None
      | Resolved path \<Rightarrow>
          (case fs w path of
             Present f \<Rightarrow>
               if pathlib_suffix path = ''.py'' \<and> has_spec f
               then Some (path, body f ''user_agent''
                                  ((sys_modules w)(''user_agent'' \<mapsto> path)))
               else None
           | _ \<Rightarrow> None))"

definition body_runs :: "world \<Rightarrow> string \<Rightarrow> bool" where
  "body_runs w agent_path = (load_run w agent_path \<noteq> None)"

text \<open>The body runs to the end and leaves the module \<open>m\<close>: line 160 is reached.\<close>

definition evaluates_to :: "world \<Rightarrow> string \<Rightarrow> pymodule \<Rightarrow> bool" where
  "evaluates_to w agent_path m =
     (case load_run w agent_path of
        Some (path, ExecOk m', modules) \<Rightarrow> m' = m
      | _ \<Rightarrow> False)"

text \<open>The world once lines 154-156 have run on the file at \<open>agent_path\<close>.\<close>

definition registered :: "world \<Rightarrow> string \<Rightarrow> world" where
  "registered w agent_path =
     (case load_run w agent_path of
        Some (path, result, modules) \<Rightarrow>
          w\<lparr>sys_modules := modules, events := events w @ [Executed path]\<rparr>
      | None \<Rightarrow> w)"

text \<open>
  The same for \<open>get_agent_game\<close> (lines 209-220 passed): the body runs under the name
  \<open>user_agent_check\<close> on the registry as it is.
\<close>

definition peek_run :: "world \<Rightarrow> string \<Rightarrow> (string \<times> exec_result \<times> registry) option" where
  "peek_run w agent_path =
     (case resolve w agent_path of
        ResolveRaises e \<Rightarrow> None
      | Resolved path \<Rightarrow>
          (case fs w path of
             Present f \<Rightarrow>
               if pathlib_suffix path = ''.py'' \<and> has_spec f
               then Some (path, body f ''user_agent_check'' (sys_modules w))
               else None
           | _ \<Rightarrow> None))"

text \<open>A class with an attribute \<open>on_turn\<close>; no such class is bound in the module.\<close>

fun exposes_on_turn :: "pyval \<Rightarrow> bool" where
  "exposes_on_turn PyNone = False"
| "exposes_on_turn (PyObj c) = (is_type c \<and> has_on_turn c)"

definition no_class_with_on_turn :: "pymodule \<Rightarrow> bool" where
  "no_class_with_on_turn m = list_all (\<lambda>v. \<not> exposes_on_turn v) (map snd m)"

text \<open>
  A value bound to \<open>Agent\<close> that gives no usable agent when it is called on the
  registry \<open>modules\<close>: it is \<open>None\<close>, its call raises an exception of any class, or
  its call returns an object without a callable \<open>on_turn\<close>.
\<close>

fun unusable :: "registry \<Rightarrow> pyval \<Rightarrow> bool" where
  "unusable modules PyNone = True"
| "unusable modules (PyObj c) =
     (case fst (call c modules) of
        CallRaises e \<Rightarrow> True
      | CallReturns a \<Rightarrow> on_turn_attr a \<noteq> Callable)"

text \<open>
  The call of the value raises an exception that is not derived from \<open>Exception\<close>.
\<close>

fun call_exits :: "registry \<Rightarrow> pyval \<Rightarrow> bool" where
  "call_exits modules PyNone = False"
| "call_exits modules (PyObj c) =
     (case fst (call c modules) of
        CallRaises e \<Rightarrow> \<not> is_Exception e
      | CallReturns a \<Rightarrow> False)"

text \<open>The module binds the class \<open>AgentBase\<close> itself under some name.\<close>

fun is_AgentBase :: "pyval \<Rightarrow> bool" where
  "is_AgentBase PyNone = False"
| "is_AgentBase (PyObj c) = (oid c = AgentBase_id)"

definition binds_AgentBase :: "pymodule \<Rightarrow> bool" where
  "binds_AgentBase m = list_ex is_AgentBase (map snd m)"


text \<open>
  A payload carries one of the fields the comment at line 61 tells the games apart by:
  \<open>your_dice\<close> for Liar's Dice, \<open>messages\<close> for Split or Steal.
\<close>

definition classifiable :: "game_state \<Rightarrow> bool" where
  "classifiable gs = (your_dice gs \<noteq> None \<or> messages gs \<noteq> None)"

section \<open>Example worlds\<close>

text \<open>
  A host with the given files under absolute paths, before anything is loaded. A path
  with a NUL byte does not resolve.
\<close>

definition host :: "(string \<times> pyfile) list \<Rightarrow> world" where
  "host files =
     \<lparr>resolve = (\<lambda>p. if CHR 0x00 \<in> set p then ResolveRaises (PyException ''ValueError'')
                      else Resolved p),
      fs = (\<lambda>p. case map_of files p of None \<Rightarrow> Missing | Some f \<Rightarrow> Present f),
      sys_modules = Map.empty, events = []\<rparr>"

text \<open>A host whose directories may not be searched: \<open>stat\<close> raises on every path.\<close>

definition locked_host :: world where
  "locked_host = (host [])\<lparr>fs := (\<lambda>p. StatRaises (PyException ''PermissionError''))\<rparr>"

text \<open>A file whose body defines the module \<open>m\<close> and imports nothing.\<close>

definition source_file :: "pymodule \<Rightarrow> pyfile" where
  "source_file m = \<lparr>has_spec = True, body = (\<lambda>name modules. (ExecOk m, modules))\<rparr>"


text \<open>A text file, which is no module.\<close>

definition notes_file :: pyfile where
  "notes_file =
     \<lparr>has_spec = False,
      body = (\<lambda>name modules. (ExecRaises (PyException ''SyntaxError''), modules))\<rparr>"

text \<open>A script that ends in \<open>sys.exit(...)\<close>, and a file with a syntax error.\<close>

definition exiting_file :: pyfile where
  "exiting_file =
     \<lparr>has_spec = True,
      body = (\<lambda>name modules. (ExecRaises (PyBaseException ''SystemExit''), modules))\<rparr>"

definition broken_file :: pyfile where
  "broken_file =
     \<lparr>has_spec = True,
      body = (\<lambda>name modules. (ExecRaises (PyException ''SyntaxError''), modules))\<rparr>"

text \<open>
  A class written by the user, with an \<open>on_turn\<close> method, the given \<open>GAME\<close> and a
  constructor that returns.
\<close>

definition user_class :: "string \<Rightarrow> string option \<Rightarrow> pyobj" where
  "user_class name tag =
     \<lparr>oid = User_id name, is_type = True, has_on_turn = True, GAME = tag,
      call = (\<lambda>modules.
        (CallReturns \<lparr>made_by = User_id name, on_turn_attr = Callable\<rparr>, modules))\<rparr>"

text \<open>A class without \<open>on_turn\<close>.\<close>

definition helper_class :: pyobj where
  "helper_class =
     \<lparr>oid = User_id ''Helper'', is_type = True, has_on_turn = False, GAME = None,
      call = (\<lambda>modules.
        (CallReturns \<lparr>made_by = User_id ''Helper'', on_turn_attr = Absent\<rparr>, modules))\<rparr>"

text \<open>The integer \<open>5\<close>, which is no class and cannot be called.\<close>

definition not_a_class :: pyobj where
  "not_a_class =
     \<lparr>oid = User_id ''5'', is_type = False, has_on_turn = False, GAME = None,
      call = (\<lambda>modules. (CallRaises (PyException ''TypeError''), modules))\<rparr>"

text \<open>A class with \<open>on_turn\<close> whose \<open>__init__\<close> calls \<open>sys.exit\<close>.\<close>

definition exiting_class :: pyobj where
  "exiting_class =
     \<lparr>oid = User_id ''Agent'', is_type = True, has_on_turn = True, GAME = None,
      call = (\<lambda>modules. (CallRaises (PyBaseException ''SystemExit''), modules))\<rparr>"

text \<open>\<open>class Helper: pass\<close> and \<open>VERSION = None\<close>: nothing exposes \<open>on_turn\<close>.\<close>

definition no_agent_module :: pymodule where
  "no_agent_module = [(''Helper'', PyObj helper_class), (''VERSION'', PyNone)]"

text \<open>\<open>class Agent\<close> with \<open>GAME = "coin-flip"\<close>, as examples/coin_flip_agent.py.\<close>

definition coin_flip_module :: pymodule where
  "coin_flip_module = [(''Agent'', PyObj (user_class ''Agent'' (Some ''coin-flip'')))]"

text \<open>\<open>class Agent\<close> with \<open>GAME = "liars-dice"\<close>.\<close>

definition liars_dice_module :: pymodule where
  "liars_dice_module = [(''Agent'', PyObj (user_class ''Agent'' (Some ''liars-dice'')))]"

text \<open>\<open>class Agent\<close> with \<open>GAME = ""\<close>.\<close>

definition empty_tag_module :: pymodule where
  "empty_tag_module = [(''Agent'', PyObj (user_class ''Agent'' (Some [])))]"

text \<open>\<open>Agent = 5\<close> beside a class \<open>GoodBot\<close> that satisfies the contract.\<close>

definition shadowed_module :: pymodule where
  "shadowed_module =
     [(''Agent'', PyObj not_a_class), (''GoodBot'', PyObj (user_class ''GoodBot'' None))]"

text \<open>The exiting \<open>Agent\<close> beside the same \<open>GoodBot\<close>.\<close>

definition exiting_agent_module :: pymodule where
  "exiting_agent_module =
     [(''Agent'', PyObj exiting_class), (''GoodBot'', PyObj (user_class ''GoodBot'' None))]"

text \<open>
  \<open>from agentduel_agents import AgentProtocol\<close> and \<open>class MyAgent\<close> with
  \<open>on_turn\<close>.
\<close>

definition protocol_import_module :: pymodule where
  "protocol_import_module =
     [(''AgentProtocol'', PyObj AgentProtocol),
      (''MyAgent'', PyObj (user_class ''MyAgent'' None))]"

text \<open>
  \<open>from agentduel_agents import AgentBase\<close> and \<open>class CoinAgent(AgentBase)\<close> with
  \<open>GAME = "coin-flip"\<close> and \<open>on_turn\<close>.
\<close>

definition base_import_module :: pymodule where
  "base_import_module =
     [(''AgentBase'', PyObj AgentBase),
      (''CoinAgent'', PyObj (user_class ''CoinAgent'' (Some ''coin-flip'')))]"

text \<open>A payload with a phase and nothing else.\<close>

definition bare_commit :: game_state where
  "bare_commit =
     \<lparr>phase = Some ''commit'', your_dice = None, messages = None, current_bid = None,
      total_dice = None\<rparr>"

text \<open>An opening bid of Liar's Dice.\<close>

definition opening_bid :: game_state where
  "opening_bid =
     \<lparr>phase = Some ''bid'', your_dice = Some [3, 1, 5, 3, 2], messages = None,
      current_bid = None, total_dice = Some 10\<rparr>"

text \<open>A bid of Liar's Dice to answer: two threes among ten dice.\<close>

definition bid_to_answer :: game_state where
  "bid_to_answer =
     \<lparr>phase = Some ''bid'', your_dice = Some [3, 1, 5, 3, 2], messages = None,
      current_bid = Some \<lparr>quantity = Some 2, face = Some 3\<rparr>, total_dice = Some 10\<rparr>"

text \<open>The same bid with a number of dice no double can hold.\<close>

definition bid_among_too_many :: game_state where
  "bid_among_too_many = bid_to_answer\<lparr>total_dice := Some (2 ^ 1024)\<rparr>"

text \<open>A round of a game the agent has no handler for.\<close>

definition coin_flip_round :: round_info where
  "coin_flip_round = \<lparr>info_round_number = Some 2, info_game_id = Some ''coin-flip''\<rparr>"

section \<open>Lemmas on the loader\<close>

lemmas example_defs =
  host_def source_file_def user_class_def helper_class_def pathlib_suffix_def final_name_def
  load_run_def evaluates_to_def registered_def body_runs_def peek_run_def

lemmas loader_defs =
  load_agent_def load_module_def find_agent_class_def check_and_instantiate_def
  instantiate_def dir_module_def Let_def

lemma load_agent_evaluated:
  "evaluates_to w p m \<Longrightarrow>
   load_agent w p eg = check_and_instantiate (registered w p) (find_agent_class m) eg"
  by (auto simp: evaluates_to_def load_run_def load_agent_def load_module_def registered_def
                 Let_def
           split: resolve_result.splits stat_result.splits if_splits prod.splits
                  exec_result.splits)

lemma scan_classes_none:
  "no_class_with_on_turn m \<Longrightarrow> scan_classes m names = PyNone"
proof (induction names)
  case Nil
  then show ?case by simp
next
  case (Cons name names)
  show ?case
  proof (cases "map_of m name")
    case None
    with Cons show ?thesis by simp
  next
    case (Some v)
    then have "(name, v) \<in> set m" by (rule map_of_SomeD)
    then have "v \<in> set (map snd m)" by force
    with Cons.prems have "\<not> exposes_on_turn v"
      by (auto simp: no_class_with_on_turn_def list_all_iff)
    with Some Cons show ?thesis by (cases v) auto
  qed
qed

text \<open>
  What the scan of \<open>load_agent\<close> selects is a class with \<open>on_turn\<close> that is not
  \<open>AgentBase\<close>; nothing in it tells \<open>AgentProtocol\<close> from a class of the user.
\<close>

lemma scan_classes_selects:
  "scan_classes m names = PyObj c \<Longrightarrow>
   is_type c \<and> has_on_turn c \<and> oid c \<noteq> AgentBase_id"
  by (induction names) (auto split: option.splits pyval.splits if_splits)

lemma instantiate_returned:
  "fst (instantiate w c) = Returned h \<Longrightarrow> on_turn_attr h = Callable"
  by (auto simp: instantiate_def Let_def split: call_result.splits if_splits prod.splits)

lemma check_and_instantiate_returned:
  "fst (check_and_instantiate w v eg) = Returned h \<Longrightarrow> on_turn_attr h = Callable"
  by (auto simp: check_and_instantiate_def Let_def dest: instantiate_returned
           split: pyval.splits if_splits)

lemma load_agent_returned:
  "fst (load_agent w p eg) = Returned h \<Longrightarrow> on_turn_attr h = Callable"
  by (auto simp: load_agent_def Let_def load_module_def dest: check_and_instantiate_returned
           split: resolve_result.splits stat_result.splits if_splits exec_result.splits
                  prod.splits)

lemma check_skipped_when_falsy:
  "GAME c = Some [] \<or> eg = Some [] \<Longrightarrow>
   check_and_instantiate w (PyObj c) eg = instantiate w c"
  by (auto simp: check_and_instantiate_def Let_def)





lemma check_and_instantiate_unusable:
  "unusable (sys_modules w) v \<Longrightarrow> fst (check_and_instantiate w v eg) \<noteq> Returned h"
  by (cases v) (auto simp: check_and_instantiate_def instantiate_def Let_def
                     split: call_result.splits prod.splits)

lemma check_and_instantiate_fails:
  "unusable (sys_modules w) v \<Longrightarrow> \<not> call_exits (sys_modules w) v \<Longrightarrow>
   \<exists>e w'. check_and_instantiate w v eg = (Raised e, w')"
  by (cases v) (auto simp: check_and_instantiate_def instantiate_def Let_def
                     split: call_result.splits prod.splits)

lemma check_and_instantiate_exits:
  "call_exits (sys_modules w) v \<Longrightarrow>
   (\<exists>g e. check_and_instantiate w v eg = (Raised (GameMismatch g e), w)) \<or>
   (\<exists>e w'. check_and_instantiate w v eg = (Propagated e, w') \<and> \<not> is_Exception e)"
  by (cases v) (auto simp: check_and_instantiate_def instantiate_def Let_def
                     split: call_result.splits prod.splits)



section \<open>Lemmas on the suffix of a path\<close>






section \<open>Lemmas on the game check\<close>

lemma scan_game_none:
  "no_class_with_on_turn m \<Longrightarrow> scan_game m names = None"
proof (induction names)
  case Nil
  then show ?case by simp
next
  case (Cons name names)
  show ?case
  proof (cases "map_of m name")
    case None
    with Cons show ?thesis by simp
  next
    case (Some v)
    then have "(name, v) \<in> set m" by (rule map_of_SomeD)
    then have "v \<in> set (map snd m)" by force
    with Cons.prems have "\<not> exposes_on_turn v"
      by (auto simp: no_class_with_on_turn_def list_all_iff)
    with Some Cons show ?thesis by (cases v) auto
  qed
qed

lemma scan_game_scan_classes:
  "\<not> binds_AgentBase m \<Longrightarrow> scan_game m names = GAME_of (scan_classes m names)"
proof (induction names)
  case Nil
  then show ?case by simp
next
  case (Cons name names)
  show ?case
  proof (cases "map_of m name")
    case None
    with Cons show ?thesis by simp
  next
    case (Some v)
    then have "(name, v) \<in> set m" by (rule map_of_SomeD)
    then have "v \<in> set (map snd m)" by force
    with Cons.prems have "\<not> is_AgentBase v"
      by (auto simp: binds_AgentBase_def list_ex_iff)
    with Some Cons show ?thesis by (cases v) auto
  qed
qed

text \<open>
  On a module that does not bind \<open>AgentBase\<close> itself, the lookup of
  \<open>get_agent_game\<close> gives the tag of the candidate that \<open>load_agent\<close> resolves on
  the same module.
\<close>

lemma peek_agrees_without_AgentBase:
  "\<not> binds_AgentBase m \<Longrightarrow> peek_game m = GAME_of (find_agent_class m)"
  by (simp add: peek_game_def find_agent_class_def scan_game_scan_classes
           split: option.splits)

lemma get_agent_game_peek_run:
  "peek_run w p = Some (path, result, modules) \<Longrightarrow>
   get_agent_game w p =
     (case result of
        ExecRaises e \<Rightarrow> if is_Exception e then Returned None else Propagated e
      | ExecOk m \<Rightarrow> Returned (peek_game m),
      w\<lparr>sys_modules := modules, events := events w @ [Executed path]\<rparr>)"
  by (auto simp: peek_run_def get_agent_game_def Let_def
           split: resolve_result.splits stat_result.splits if_splits exec_result.splits)

lemma get_agent_game_no_peek_run:
  "peek_run w p = None \<Longrightarrow>
   get_agent_game w p =
     (case resolve w p of
        ResolveRaises e \<Rightarrow> Propagated e
      | Resolved path \<Rightarrow>
          (case fs w path of StatRaises e \<Rightarrow> Propagated e | _ \<Rightarrow> Returned None), w)"
  by (auto simp: peek_run_def get_agent_game_def Let_def
           split: resolve_result.splits stat_result.splits if_splits)

lemma peek_game_none:
  "map_of m ''Agent'' = None \<Longrightarrow> no_class_with_on_turn m \<Longrightarrow> peek_game m = None"
  by (simp add: peek_game_def scan_game_none)

section \<open>Lemmas on the multi-game agent\<close>

lemma int_to_float_small: "\<bar>t\<bar> < 2 ^ 53 \<Longrightarrow> int_to_float t = Inr t"
proof -
  assume a: "\<bar>t\<bar> < 2 ^ 53"
  then have "nat \<bar>t\<bar> < 2 ^ 53"
    by (simp add: nat_less_iff)
  then have r: "round_to_double (nat \<bar>t\<bar>) = nat \<bar>t\<bar>"
    by (simp add: round_to_double_def)
  have "(2::int) ^ 53 < 2 ^ 1024" by simp
  with a have "\<not> (2::int) ^ 1024 \<le> \<bar>t\<bar>" by linarith
  with r show ?thesis by (simp add: int_to_float_def Let_def)
qed

lemma int_to_float_raises:
  "int_to_float t = Inl e \<Longrightarrow> e = PyException ''OverflowError'' \<and> 2 ^ 53 \<le> \<bar>t\<bar>"
proof -
  assume a: "int_to_float t = Inl e"
  then have "e = PyException ''OverflowError''"
    by (auto simp: int_to_float_def Let_def split: if_splits)
  moreover have "2 ^ 53 \<le> \<bar>t\<bar>"
  proof (rule ccontr)
    assume "\<not> 2 ^ 53 \<le> \<bar>t\<bar>"
    then have "\<bar>t\<bar> < 2 ^ 53" by simp
    then have "int_to_float t = Inr t" by (rule int_to_float_small)
    with a show False by simp
  qed
  ultimately show ?thesis ..
qed

lemma bit_length_power2: "bit_length (2 ^ n) = Suc n"
proof (induction n)
  case 0
  show ?case by (simp add: bit_length.simps [of "Suc 0"] bit_length.simps [of 0])
next
  case (Suc n)
  have "bit_length (2 ^ Suc n) = Suc (bit_length (2 ^ Suc n div 2))"
    by (subst bit_length.simps) simp
  with Suc show ?case by simp
qed

lemma round_to_double_power2:
  assumes "53 \<le> n"
  shows "round_to_double (2 ^ n) = 2 ^ n"
proof -
  let ?k = "n - 52"
  have k: "bit_length (2 ^ n) - 53 = ?k"
    by (simp add: bit_length_power2)
  from assms have n: "n = 52 + ?k" by simp
  have pw: "(2::nat) ^ n = 2 ^ 52 * 2 ^ ?k"
    by (subst n) (simp only: power_add)
  have q: "(2::nat) ^ n div 2 ^ ?k = 2 ^ 52"
    unfolding pw by simp
  have r: "(2::nat) ^ n mod 2 ^ ?k = 0"
    unfolding pw by simp
  from assms have "(2::nat) ^ 53 \<le> 2 ^ n"
    by (intro power_increasing) simp_all
  then have big: "\<not> (2::nat) ^ n < 2 ^ 53"
    by (simp only: not_less)
  show ?thesis
    unfolding round_to_double_def Let_def k q r
    using big pw by simp
qed

lemma int_to_float_too_large: "int_to_float (2 ^ 1024) = Inl (PyException ''OverflowError'')"
proof -
  have "nat \<bar>(2::int) ^ 1024\<bar> = 2 ^ 1024"
    by (simp add: nat_power_eq)
  moreover have "round_to_double (2 ^ 1024) = 2 ^ 1024"
    by (rule round_to_double_power2) simp
  ultimately show ?thesis
    by (simp add: int_to_float_def Let_def)
qed

lemma bit_length_lower: "0 < a \<Longrightarrow> 2 ^ (bit_length a - 1) \<le> a"
proof (induction a rule: bit_length.induct)
  case (1 n)
  from "1.prems" have bl: "bit_length n = Suc (bit_length (n div 2))"
    by (subst bit_length.simps) simp
  show ?case
  proof (cases "n div 2 = 0")
    case True
    then have "bit_length (n div 2) = 0" by (simp add: bit_length.simps [of 0])
    with bl "1.prems" show ?thesis by simp
  next
    case False
    then have pos: "0 < n div 2" by simp
    with "1.IH" "1.prems" have ih: "2 ^ (bit_length (n div 2) - 1) \<le> n div 2" by simp
    from False have "bit_length (n div 2) = Suc (bit_length (n div 2 div 2))"
      by (subst bit_length.simps) simp
    then have "bit_length (n div 2) = Suc (bit_length (n div 2) - 1)" by simp
    then have "(2::nat) ^ bit_length (n div 2) = 2 * 2 ^ (bit_length (n div 2) - 1)"
      by (metis power_Suc)
    with ih have "(2::nat) ^ bit_length (n div 2) \<le> 2 * (n div 2)" by simp
    also have "\<dots> \<le> n" by simp
    finally show ?thesis using bl by simp
  qed
qed

lemma round_to_double_upper: "round_to_double a \<le> 2 * a"
proof (cases "a < 2 ^ 53")
  case True
  then show ?thesis by (simp add: round_to_double_def)
next
  case False
  let ?k = "bit_length a - 53"
  let ?q = "a div 2 ^ ?k"
  from False have pos: "0 < a" by (cases a) auto
  have "(2::nat) ^ ?k \<le> 2 ^ (bit_length a - 1)"
    by (intro power_increasing) simp_all
  also from pos have "\<dots> \<le> a" by (rule bit_length_lower)
  finally have "1 \<le> ?q"
    by (simp add: div_greater_zero_iff Suc_le_eq)
  then have "?q + 1 \<le> 2 * ?q" by simp
  then have "(?q + 1) * 2 ^ ?k \<le> 2 * ?q * 2 ^ ?k"
    by (rule mult_le_mono1)
  also have "\<dots> = 2 * (?q * 2 ^ ?k)" by simp
  also have "?q * 2 ^ ?k \<le> a" by (rule div_times_less_eq_dividend)
  finally have up: "(?q + 1) * 2 ^ ?k \<le> 2 * a" by simp
  have "?q * 2 ^ ?k \<le> (?q + 1) * 2 ^ ?k" by simp
  from this up have down: "?q * 2 ^ ?k \<le> 2 * a" by (rule le_trans)
  from False up down show ?thesis
    by (simp add: round_to_double_def Let_def)
qed

lemma int_to_float_raises_large:
  assumes "int_to_float t = Inl e"
  shows "e = PyException ''OverflowError'' \<and> 2 ^ 1023 \<le> \<bar>t\<bar>"
proof -
  from assms have e: "e = PyException ''OverflowError''"
    and big: "(2::int) ^ 1024 \<le> int (round_to_double (nat \<bar>t\<bar>))"
    by (auto simp: int_to_float_def Let_def split: if_splits)
  have "int (round_to_double (nat \<bar>t\<bar>)) \<le> int (2 * nat \<bar>t\<bar>)"
    using round_to_double_upper [of "nat \<bar>t\<bar>"] by (simp only: of_nat_le_iff)
  also have "\<dots> = 2 * \<bar>t\<bar>" by simp
  finally have "(2::int) ^ 1024 \<le> 2 * \<bar>t\<bar>" using big by linarith
  moreover have "(2::int) ^ 1024 = 2 * 2 ^ 1023" by simp
  ultimately have "(2::int) ^ 1023 \<le> \<bar>t\<bar>" by linarith
  with e show ?thesis ..
qed

lemma handle_liars_dice_raises:
  "handle_liars_dice gs ph = TurnRaises e \<longleftrightarrow>
     ph = Some ''bid'' \<and> current_bid gs \<noteq> None \<and>
     int_to_float (get_or (total_dice gs) 10) = Inl e"
  by (auto simp: handle_liars_dice_def Let_def split: option.splits list.splits sum.splits)

section \<open>The claims\<close>

text \<open>
  C1. When the module was evaluated, has no attribute \<open>Agent\<close> and none of its classes
  exposes \<open>on_turn\<close>, \<open>load_agent\<close> raises the error "No agent class found", of kind
  ContractViolation, and returns no handle. Conversely, whatever \<open>load_agent\<close> returns
  has an \<open>on_turn\<close> attribute that is callable.
\<close>

theorem load_agent_without_on_turn_fails:
  "(evaluates_to w p m \<and> map_of m ''Agent'' = None \<and> no_class_with_on_turn m
    \<longrightarrow> load_agent w p eg = (Raised NoAgentClass, registered w p) \<and>
        kind NoAgentClass = ContractViolation) \<and>
   (fst (load_agent w p eg) = Returned h \<longrightarrow> on_turn_attr h = Callable)"
proof (intro conjI impI)
  assume a: "evaluates_to w p m \<and> map_of m ''Agent'' = None \<and> no_class_with_on_turn m"
  then have "find_agent_class m = PyNone"
    by (simp add: find_agent_class_def scan_classes_none)
  with a load_agent_evaluated [of w p m eg]
  show "load_agent w p eg = (Raised NoAgentClass, registered w p)"
    by (simp add: check_and_instantiate_def)
next
  show "kind NoAgentClass = ContractViolation" by simp
next
  assume "fst (load_agent w p eg) = Returned h"
  then show "on_turn_attr h = Callable" by (rule load_agent_returned)
qed

theorem load_agent_without_on_turn_fails_witness:
  "evaluates_to (host [(''/agents/util.py'', source_file no_agent_module)])
     ''/agents/util.py'' no_agent_module \<and>
   map_of no_agent_module ''Agent'' = None \<and>
   no_class_with_on_turn no_agent_module \<and>
   fst (load_agent (host [(''/agents/util.py'', source_file no_agent_module)])
     ''/agents/util.py'' None) = Raised NoAgentClass \<and>
   fst (load_agent (host [(''/agents/coin.py'', source_file coin_flip_module)])
     ''/agents/coin.py'' (Some ''coin-flip''))
     = Returned \<lparr>made_by = User_id ''Agent'', on_turn_attr = Callable\<rparr> \<and>
   on_turn_attr \<lparr>made_by = User_id ''Agent'', on_turn_attr = Callable\<rparr> = Callable"
proof -
  let ?w = "host [(''/agents/util.py'', source_file no_agent_module)]"
  let ?v = "host [(''/agents/coin.py'', source_file coin_flip_module)]"
  let ?h = "\<lparr>made_by = User_id ''Agent'', on_turn_attr = Callable\<rparr>"
  have a: "evaluates_to ?w ''/agents/util.py'' no_agent_module \<and>
      map_of no_agent_module ''Agent'' = None \<and> no_class_with_on_turn no_agent_module"
    by (simp add: example_defs no_agent_module_def no_class_with_on_turn_def)
  have b: "fst (load_agent ?v ''/agents/coin.py'' (Some ''coin-flip'')) = Returned ?h"
    by (simp add: example_defs loader_defs coin_flip_module_def)
  from a load_agent_without_on_turn_fails [of ?w "''/agents/util.py''" no_agent_module None ?h]
  have "fst (load_agent ?w ''/agents/util.py'' None) = Raised NoAgentClass"
    by simp
  moreover from b
    load_agent_without_on_turn_fails [of ?v "''/agents/coin.py''" coin_flip_module "Some ''coin-flip''" ?h]
  have "on_turn_attr ?h = Callable"
    by blast
  ultimately show ?thesis using a b by simp
qed

text \<open>
  C2. When the candidate's \<open>GAME\<close> and \<open>expected_game\<close> are both non-empty and differ,
  \<open>load_agent\<close> raises the game mismatch error, and the only user code that has run by
  then is the module body: the candidate was not called.
\<close>

theorem game_mismatch_before_instantiation:
  assumes "evaluates_to w p m"
    and "find_agent_class m = PyObj c"
    and "GAME c = Some g" and "g \<noteq> []" and "e \<noteq> []" and "g \<noteq> e"
  shows "load_agent w p (Some e) = (Raised (GameMismatch g e), registered w p) \<and>
         kind (GameMismatch g e) = GameMismatchKind \<and>
         (\<exists>path. resolve w p = Resolved path \<and>
            events (snd (load_agent w p (Some e))) = events w @ [Executed path])"
proof -
  from assms load_agent_evaluated [of w p m "Some e"]
  have a: "load_agent w p (Some e) = (Raised (GameMismatch g e), registered w p)"
    by (simp add: check_and_instantiate_def)
  from assms(1)
  have "\<exists>path. resolve w p = Resolved path \<and>
      events (registered w p) = events w @ [Executed path]"
    by (auto simp: evaluates_to_def registered_def load_run_def
             split: resolve_result.splits stat_result.splits if_splits)
  with a show ?thesis by simp
qed

theorem game_mismatch_before_instantiation_witness:
  "evaluates_to (host [(''/agents/dice.py'', source_file liars_dice_module)])
     ''/agents/dice.py'' liars_dice_module \<and>
   find_agent_class liars_dice_module = PyObj (user_class ''Agent'' (Some ''liars-dice'')) \<and>
   fst (load_agent (host [(''/agents/dice.py'', source_file liars_dice_module)])
     ''/agents/dice.py'' (Some ''coin-flip'')) = Raised (GameMismatch ''liars-dice'' ''coin-flip'') \<and>
   events (snd (load_agent (host [(''/agents/dice.py'', source_file liars_dice_module)])
     ''/agents/dice.py'' (Some ''coin-flip''))) = [Executed ''/agents/dice.py'']"
proof -
  let ?w = "host [(''/agents/dice.py'', source_file liars_dice_module)]"
  let ?c = "user_class ''Agent'' (Some ''liars-dice'')"
  have a: "evaluates_to ?w ''/agents/dice.py'' liars_dice_module"
    by (simp add: example_defs)
  have b: "find_agent_class liars_dice_module = PyObj ?c"
    by (simp add: find_agent_class_def liars_dice_module_def)
  have c: "GAME ?c = Some ''liars-dice''"
    by (simp add: user_class_def)
  have d: "resolve ?w ''/agents/dice.py'' = Resolved ''/agents/dice.py''"
    by (simp add: host_def)
  have t: "load_agent ?w ''/agents/dice.py'' (Some ''coin-flip'')
        = (Raised (GameMismatch ''liars-dice'' ''coin-flip''), registered ?w ''/agents/dice.py'') \<and>
      kind (GameMismatch ''liars-dice'' ''coin-flip'') = GameMismatchKind \<and>
      (\<exists>path. resolve ?w ''/agents/dice.py'' = Resolved path \<and>
         events (snd (load_agent ?w ''/agents/dice.py'' (Some ''coin-flip'')))
           = events ?w @ [Executed path])"
    by (rule game_mismatch_before_instantiation [OF a b c]) simp_all
  then have e: "fst (load_agent ?w ''/agents/dice.py'' (Some ''coin-flip''))
      = Raised (GameMismatch ''liars-dice'' ''coin-flip'')"
    by simp
  from t obtain path where "resolve ?w ''/agents/dice.py'' = Resolved path"
    and "events (snd (load_agent ?w ''/agents/dice.py'' (Some ''coin-flip'')))
           = events ?w @ [Executed path]"
    by blast
  with d have "events (snd (load_agent ?w ''/agents/dice.py'' (Some ''coin-flip'')))
      = [Executed ''/agents/dice.py'']"
    by (simp add: host_def)
  with a b e show ?thesis by simp
qed

text \<open>
  C3, at the failing input: a module that imports \<open>AgentProtocol\<close> and defines
  \<open>MyAgent\<close>. The scan of \<open>load_agent\<close> takes \<open>AgentProtocol\<close>, the first name of
  \<open>dir(module)\<close>, as the candidate, and the load fails on instantiating it. With
  \<open>AgentBase\<close> imported instead, the scan passes over it and takes the user's class.
\<close>

theorem scan_selects_AgentProtocol:
  "dir_module protocol_import_module = [''AgentProtocol'', ''MyAgent''] \<and>
   find_agent_class protocol_import_module = PyObj AgentProtocol \<and>
   fst (load_agent (host [(''/agents/typed.py'', source_file protocol_import_module)])
     ''/agents/typed.py'' None) = Raised (InstantiateFailed (PyException ''TypeError'')) \<and>
   find_agent_class base_import_module = PyObj (user_class ''CoinAgent'' (Some ''coin-flip''))"
  by (simp add: example_defs loader_defs protocol_import_module_def base_import_module_def
        AgentProtocol_def AgentBase_def)

text \<open>
  C4, at the failing input: a module that imports \<open>AgentBase\<close> and defines
  \<open>CoinAgent\<close> with \<open>GAME = "coin-flip"\<close>. \<open>load_agent\<close> succeeds with the
  candidate \<open>CoinAgent\<close>, whose tag is \<open>coin-flip\<close>; \<open>get_agent_game\<close> stops at
  \<open>AgentBase\<close> and returns \<open>None\<close>.
\<close>

theorem peek_disagrees_with_loader:
  "dir_module base_import_module = [''AgentBase'', ''CoinAgent''] \<and>
   fst (load_agent (host [(''/agents/coin_bot.py'', source_file base_import_module)])
     ''/agents/coin_bot.py'' None)
     = Returned \<lparr>made_by = User_id ''CoinAgent'', on_turn_attr = Callable\<rparr> \<and>
   GAME_of (find_agent_class base_import_module) = Some ''coin-flip'' \<and>
   fst (get_agent_game (host [(''/agents/coin_bot.py'', source_file base_import_module)])
     ''/agents/coin_bot.py'') = Returned None"
  by (simp add: example_defs loader_defs get_agent_game_def peek_game_def
        base_import_module_def AgentBase_def)

text \<open>
  C5, as stated, fails. \<open>except Exception\<close> lets through what is not derived from
  \<open>Exception\<close>: a file whose body calls \<open>sys.exit\<close> makes \<open>get_agent_game\<close>
  raise \<open>SystemExit\<close>. And lines 209-211 are before the \<open>try\<close>: a path with a NUL
  byte raises \<open>ValueError\<close> from \<open>resolve\<close>, a path in a directory that may not be
  searched raises \<open>PermissionError\<close> from \<open>exists\<close>.
\<close>

theorem get_agent_game_propagates_counterexample:
  "fst (get_agent_game (host [(''/agents/cli.py'', exiting_file)]) ''/agents/cli.py'')
     = Propagated (PyBaseException ''SystemExit'') \<and>
   fst (get_agent_game (host []) (''/agents/a'' @ [CHR 0x00] @ ''.py''))
     = Propagated (PyException ''ValueError'') \<and>
   fst (get_agent_game locked_host ''/private/bot.py'')
     = Propagated (PyException ''PermissionError'')"
  by (simp add: get_agent_game_def example_defs exiting_file_def locked_host_def Let_def)

text \<open>
  C5, amended. \<open>get_agent_game\<close> never raises \<open>AgentLoadError\<close>. An exception
  leaves it in exactly three cases: \<open>resolve\<close> raised it, \<open>exists\<close> raised it, or
  the body of the file raised it and it is not derived from \<open>Exception\<close>. In every
  other case it returns: \<open>None\<close>, with the world unchanged, for a path that does not
  exist and for one whose suffix is not \<open>.py\<close>; \<open>None\<close> for a file whose body
  raises an \<open>Exception\<close> and for a module without a candidate.
\<close>

theorem get_agent_game_swallows_exceptions:
  "(\<forall>e. fst (get_agent_game w p) \<noteq> Raised e) \<and>
   (fst (get_agent_game w p) = Propagated e \<longleftrightarrow>
      resolve w p = ResolveRaises e \<or>
      (\<exists>path. resolve w p = Resolved path \<and> fs w path = StatRaises e) \<or>
      (\<exists>path modules. peek_run w p = Some (path, ExecRaises e, modules) \<and>
         \<not> is_Exception e)) \<and>
   (resolve w p = Resolved path \<and> fs w path = Missing \<longrightarrow>
      get_agent_game w p = (Returned None, w)) \<and>
   (resolve w p = Resolved path \<and> fs w path = Present f \<and> pathlib_suffix path \<noteq> ''.py''
      \<longrightarrow> get_agent_game w p = (Returned None, w)) \<and>
   (peek_run w p = Some (path, ExecRaises x, modules) \<and> is_Exception x \<longrightarrow>
      fst (get_agent_game w p) = Returned None) \<and>
   (peek_run w p = Some (path, ExecOk m, modules) \<and> map_of m ''Agent'' = None \<and>
    no_class_with_on_turn m \<longrightarrow>
      fst (get_agent_game w p) = Returned None)"
proof (intro conjI impI allI)
  fix e show "fst (get_agent_game w p) \<noteq> Raised e"
    by (auto simp: get_agent_game_def Let_def
             split: resolve_result.splits stat_result.splits exec_result.splits prod.splits)
next
  show "fst (get_agent_game w p) = Propagated e \<longleftrightarrow>
      resolve w p = ResolveRaises e \<or>
      (\<exists>path. resolve w p = Resolved path \<and> fs w path = StatRaises e) \<or>
      (\<exists>path modules. peek_run w p = Some (path, ExecRaises e, modules) \<and>
         \<not> is_Exception e)"
  proof (cases "peek_run w p")
    case None
    then show ?thesis
      by (auto simp: get_agent_game_no_peek_run
               split: resolve_result.splits stat_result.splits)
  next
    case (Some r)
    obtain path result modules where r: "r = (path, result, modules)"
      by (cases r) auto
    from Some r have run: "peek_run w p = Some (path, result, modules)" by simp
    then have "\<exists>f. resolve w p = Resolved path \<and> fs w path = Present f"
      by (auto simp: peek_run_def split: resolve_result.splits stat_result.splits if_splits)
    with run show ?thesis
      by (auto simp: get_agent_game_peek_run split: exec_result.splits)
  qed
next
  assume "resolve w p = Resolved path \<and> fs w path = Missing"
  then show "get_agent_game w p = (Returned None, w)"
    by (simp add: get_agent_game_def)
next
  assume "resolve w p = Resolved path \<and> fs w path = Present f \<and> pathlib_suffix path \<noteq> ''.py''"
  then show "get_agent_game w p = (Returned None, w)"
    by (simp add: get_agent_game_def)
next
  assume "peek_run w p = Some (path, ExecRaises x, modules) \<and> is_Exception x"
  then show "fst (get_agent_game w p) = Returned None"
    by (simp add: get_agent_game_peek_run)
next
  assume "peek_run w p = Some (path, ExecOk m, modules) \<and> map_of m ''Agent'' = None \<and>
    no_class_with_on_turn m"
  then show "fst (get_agent_game w p) = Returned None"
    by (simp add: get_agent_game_peek_run peek_game_none)
qed

theorem get_agent_game_swallows_exceptions_witness:
  "fst (get_agent_game (host [(''/agents/cli.py'', exiting_file)]) ''/agents/cli.py'')
     = Propagated (PyBaseException ''SystemExit'') \<and>
   fst (get_agent_game locked_host ''/private/bot.py'')
     = Propagated (PyException ''PermissionError'') \<and>
   get_agent_game (host [(''/agents/notes.txt'', notes_file)]) ''/agents/missing.py''
     = (Returned None, host [(''/agents/notes.txt'', notes_file)]) \<and>
   get_agent_game (host [(''/agents/notes.txt'', notes_file)]) ''/agents/notes.txt''
     = (Returned None, host [(''/agents/notes.txt'', notes_file)]) \<and>
   fst (get_agent_game (host [(''/agents/broken.py'', broken_file)]) ''/agents/broken.py'')
     = Returned None \<and>
   fst (get_agent_game (host [(''/agents/util.py'', source_file no_agent_module)])
     ''/agents/util.py'') = Returned None"
proof -
  let ?w1 = "host [(''/agents/cli.py'', exiting_file)]"
  let ?w2 = "host [(''/agents/notes.txt'', notes_file)]"
  let ?w3 = "host [(''/agents/broken.py'', broken_file)]"
  let ?w4 = "host [(''/agents/util.py'', source_file no_agent_module)]"
  let ?e = "PyBaseException ''SystemExit''"
  let ?x = "PyException ''SyntaxError''"
  let ?d = "PyException ''PermissionError''"
  note t = get_agent_game_swallows_exceptions
  have "peek_run ?w1 ''/agents/cli.py'' = Some (''/agents/cli.py'', ExecRaises ?e, Map.empty) \<and>
      \<not> is_Exception ?e"
    by (simp add: example_defs exiting_file_def)
  with t [where w = ?w1 and p = "''/agents/cli.py''" and e = ?e]
  have a: "fst (get_agent_game ?w1 ''/agents/cli.py'') = Propagated ?e" by blast
  have "resolve locked_host ''/private/bot.py'' = Resolved ''/private/bot.py'' \<and>
      fs locked_host ''/private/bot.py'' = StatRaises ?d"
    by (simp add: locked_host_def host_def)
  with t [where w = locked_host and p = "''/private/bot.py''" and e = ?d]
  have b: "fst (get_agent_game locked_host ''/private/bot.py'') = Propagated ?d" by blast
  have "resolve ?w2 ''/agents/missing.py'' = Resolved ''/agents/missing.py'' \<and>
      fs ?w2 ''/agents/missing.py'' = Missing"
    by (simp add: host_def)
  with t [where w = ?w2 and p = "''/agents/missing.py''" and path = "''/agents/missing.py''"]
  have c: "get_agent_game ?w2 ''/agents/missing.py'' = (Returned None, ?w2)" by blast
  have "resolve ?w2 ''/agents/notes.txt'' = Resolved ''/agents/notes.txt'' \<and>
      fs ?w2 ''/agents/notes.txt'' = Present notes_file \<and>
      pathlib_suffix ''/agents/notes.txt'' \<noteq> ''.py''"
    by (simp add: example_defs)
  with t [where w = ?w2 and p = "''/agents/notes.txt''" and path = "''/agents/notes.txt''"
      and f = notes_file]
  have d: "get_agent_game ?w2 ''/agents/notes.txt'' = (Returned None, ?w2)" by blast
  have "peek_run ?w3 ''/agents/broken.py'' = Some (''/agents/broken.py'', ExecRaises ?x, Map.empty) \<and>
      is_Exception ?x"
    by (simp add: example_defs broken_file_def)
  with t [where w = ?w3 and p = "''/agents/broken.py''" and path = "''/agents/broken.py''"
      and x = ?x and modules = Map.empty]
  have e: "fst (get_agent_game ?w3 ''/agents/broken.py'') = Returned None" by blast
  have "peek_run ?w4 ''/agents/util.py'' = Some (''/agents/util.py'', ExecOk no_agent_module, Map.empty) \<and>
      map_of no_agent_module ''Agent'' = None \<and> no_class_with_on_turn no_agent_module"
    by (simp add: example_defs no_agent_module_def no_class_with_on_turn_def)
  with t [where w = ?w4 and p = "''/agents/util.py''" and path = "''/agents/util.py''"
      and m = no_agent_module and modules = Map.empty]
  have f: "fst (get_agent_game ?w4 ''/agents/util.py'') = Returned None" by blast
  from a b c d e f show ?thesis by simp
qed

text \<open>
  C6, as stated, fails. A payload with neither \<open>your_dice\<close> nor \<open>messages\<close>, given
  to a fresh agent, is answered as Split or Steal, and that guess is kept. And in a
  round that \<open>on_round_start\<close> labelled \<open>coin-flip\<close>, a bid of Liar's Dice is
  answered by the Split or Steal handler with an empty message.
\<close>

theorem on_turn_guesses_default_counterexample:
  "\<not> classifiable bare_commit \<and>
   on_turn Agent_init bare_commit
     = (TurnReturns (Commit ''split''),
        Agent_init\<lparr>current_game_type := Some ''split-or-steal''\<rparr>) \<and>
   current_game_type (on_round_start Agent_init coin_flip_round) = Some ''coin-flip'' \<and>
   fst (on_turn (on_round_start Agent_init coin_flip_round) bid_to_answer)
     = TurnReturns (Message [])"
  by (simp add: classifiable_def bare_commit_def bid_to_answer_def coin_flip_round_def
        on_turn_def on_round_start_def Agent_init_def handle_split_or_steal_def get_or_def
        Let_def)

text \<open>
  C6, amended. \<open>on_turn\<close> of the multi-game agent has no failure for a payload it
  cannot classify. With no game type kept, a payload with \<open>your_dice\<close> is Liar's Dice
  and every other payload is Split or Steal by default, and the choice is kept. With a
  game type kept, the payload goes to the Liar's Dice handler when the type is
  \<open>liars-dice\<close> and to the Split or Steal handler for every other type, whatever
  game the host named. After \<open>on_turn\<close> a game type is always kept, and
  \<open>on_round_start\<close> keeps the host's \<open>game_id\<close>, or \<open>split-or-steal\<close> when the
  host gives none. On payloads typed as the docstrings say, \<open>on_turn\<close> raises only
  in the Liar's Dice handler, on a bid to answer, and then \<open>OverflowError\<close>, for a
  \<open>total_dice\<close> of at least \<open>2 ^ 1023\<close> in absolute value that no double holds;
  below \<open>2 ^ 53\<close> the conversion of line 137 is exact.
\<close>

theorem on_turn_classification:
  "(current_game_type self = None \<longrightarrow>
      on_turn self gs =
        (if your_dice gs \<noteq> None
         then (handle_liars_dice gs (phase gs),
               self\<lparr>current_game_type := Some ''liars-dice''\<rparr>)
         else (TurnReturns (handle_split_or_steal gs (phase gs)),
               self\<lparr>current_game_type := Some ''split-or-steal''\<rparr>))) \<and>
   (current_game_type self = Some g \<longrightarrow>
      on_turn self gs =
        (if g = ''liars-dice'' then handle_liars_dice gs (phase gs)
         else TurnReturns (handle_split_or_steal gs (phase gs)), self)) \<and>
   current_game_type (snd (on_turn self gs)) \<noteq> None \<and>
   current_game_type (on_round_start self info)
     = Some (get_or (info_game_id info) ''split-or-steal'') \<and>
   (fst (on_turn self gs) = TurnRaises e \<longleftrightarrow>
      current_game_type (snd (on_turn self gs)) = Some ''liars-dice'' \<and>
      phase gs = Some ''bid'' \<and> current_bid gs \<noteq> None \<and>
      int_to_float (get_or (total_dice gs) 10) = Inl e) \<and>
   (int_to_float t = Inl e \<longrightarrow> e = PyException ''OverflowError'' \<and> 2 ^ 1023 \<le> \<bar>t\<bar>) \<and>
   (\<bar>t\<bar> < 2 ^ 53 \<longrightarrow> int_to_float t = Inr t)"
proof (intro conjI impI)
  show "fst (on_turn self gs) = TurnRaises e \<longleftrightarrow>
      current_game_type (snd (on_turn self gs)) = Some ''liars-dice'' \<and>
      phase gs = Some ''bid'' \<and> current_bid gs \<noteq> None \<and>
      int_to_float (get_or (total_dice gs) 10) = Inl e"
    by (auto simp: on_turn_def Let_def handle_liars_dice_raises)
next
  assume "int_to_float t = Inl e"
  then show "e = PyException ''OverflowError''" "2 ^ 1023 \<le> \<bar>t\<bar>"
    using int_to_float_raises_large by blast+
next
  assume "\<bar>t\<bar> < 2 ^ 53"
  then show "int_to_float t = Inr t" by (rule int_to_float_small)
qed (auto simp: on_turn_def on_round_start_def Let_def)

theorem on_turn_classification_witness:
  "on_turn Agent_init bare_commit
     = (TurnReturns (Commit ''split''),
        Agent_init\<lparr>current_game_type := Some ''split-or-steal''\<rparr>) \<and>
   on_turn Agent_init opening_bid
     = (TurnReturns (Bid 3 3), Agent_init\<lparr>current_game_type := Some ''liars-dice''\<rparr>) \<and>
   on_turn (Agent_init\<lparr>current_game_type := Some ''liars-dice''\<rparr>) bid_to_answer
     = (TurnReturns (Bid 2 4), Agent_init\<lparr>current_game_type := Some ''liars-dice''\<rparr>) \<and>
   on_turn (on_round_start Agent_init coin_flip_round) bid_to_answer
     = (TurnReturns (Message []), on_round_start Agent_init coin_flip_round) \<and>
   fst (on_turn Agent_init bid_among_too_many) = TurnRaises (PyException ''OverflowError'') \<and>
   int_to_float 10 = Inr 10"
proof -
  let ?a = "Agent_init\<lparr>current_game_type := Some ''liars-dice''\<rparr>"
  let ?b = "on_round_start Agent_init coin_flip_round"
  note t = on_turn_classification
  have a: "current_game_type Agent_init = None"
    by (simp add: Agent_init_def)
  have b: "current_game_type ?a = Some ''liars-dice''"
    by simp
  have "\<bar>10::int\<bar> < 2 ^ 53" by simp
  with t [where t = 10] have ten: "int_to_float 10 = Inr 10" by blast
  from a t [of Agent_init bare_commit]
  have c: "on_turn Agent_init bare_commit
      = (TurnReturns (Commit ''split''),
         Agent_init\<lparr>current_game_type := Some ''split-or-steal''\<rparr>)"
    by (simp add: bare_commit_def handle_split_or_steal_def)
  from a t [of Agent_init opening_bid]
  have d: "on_turn Agent_init opening_bid = (TurnReturns (Bid 3 3), ?a)"
    by (simp add: opening_bid_def handle_liars_dice_def get_or_def Let_def)
  from b t [of ?a bid_to_answer "''liars-dice''"]
  have e: "on_turn ?a bid_to_answer = (TurnReturns (Bid 2 4), ?a)"
    by (simp add: bid_to_answer_def handle_liars_dice_def get_or_def ten Let_def)
  have "current_game_type ?b = Some ''coin-flip''"
    by (simp add: on_round_start_def coin_flip_round_def get_or_def)
  with t [of ?b bid_to_answer "''coin-flip''"]
  have f: "on_turn ?b bid_to_answer = (TurnReturns (Message []), ?b)"
    by (simp add: bid_to_answer_def handle_split_or_steal_def)
  have td: "get_or (total_dice bid_among_too_many) 10 = 2 ^ 1024"
    by (simp add: bid_among_too_many_def get_or_def)
  have over: "int_to_float (get_or (total_dice bid_among_too_many) 10)
      = Inl (PyException ''OverflowError'')"
    by (simp only: td int_to_float_too_large)
  have "current_game_type (snd (on_turn Agent_init bid_among_too_many)) = Some ''liars-dice'' \<and>
      phase bid_among_too_many = Some ''bid'' \<and> current_bid bid_among_too_many \<noteq> None"
    by (simp add: bid_among_too_many_def bid_to_answer_def on_turn_def Agent_init_def Let_def)
  with over
  have "current_game_type (snd (on_turn Agent_init bid_among_too_many)) = Some ''liars-dice'' \<and>
      phase bid_among_too_many = Some ''bid'' \<and> current_bid bid_among_too_many \<noteq> None \<and>
      int_to_float (get_or (total_dice bid_among_too_many) 10)
        = Inl (PyException ''OverflowError'')"
    by blast
  with t [of Agent_init bid_among_too_many _ _ "PyException ''OverflowError''"]
  have g: "fst (on_turn Agent_init bid_among_too_many) = TurnRaises (PyException ''OverflowError'')"
    by blast
  from c d e f g ten show ?thesis by simp
qed







text \<open>
  C9, as stated, fails: when the constructor of \<open>Agent\<close> raises \<open>SystemExit\<close>,
  \<open>load_agent\<close> raises no \<open>AgentLoadError\<close>; the \<open>SystemExit\<close> leaves it.
\<close>

theorem exiting_agent_propagates_counterexample:
  "map_of exiting_agent_module ''Agent'' = Some (PyObj exiting_class) \<and>
   map_of exiting_agent_module ''GoodBot'' = Some (PyObj (user_class ''GoodBot'' None)) \<and>
   fst (load_agent (host [(''/agents/exit.py'', source_file exiting_agent_module)])
     ''/agents/exit.py'' None) = Propagated (PyBaseException ''SystemExit'')"
  by (simp add: example_defs loader_defs exiting_agent_module_def exiting_class_def)

text \<open>
  C9, amended. When the module has an attribute \<open>Agent\<close>, that attribute is the
  candidate whatever else the module defines, and the scan is not consulted. When it is
  \<open>None\<close>, its call raises or its instance has no callable \<open>on_turn\<close>,
  \<open>load_agent\<close> returns no handle, also when another class of the module satisfies
  the contract: it raises \<open>AgentLoadError\<close>, unless the call raises an exception not
  derived from \<open>Exception\<close>, which then leaves \<open>load_agent\<close> as it is (if the game
  check has not raised before).
\<close>

theorem agent_name_takes_precedence:
  assumes "evaluates_to w p m" and "map_of m ''Agent'' = Some v"
  shows "find_agent_class m = v \<and>
         load_agent w p eg = check_and_instantiate (registered w p) v eg \<and>
         (unusable (sys_modules (registered w p)) v \<longrightarrow>
            (\<forall>h. fst (load_agent w p eg) \<noteq> Returned h)) \<and>
         (unusable (sys_modules (registered w p)) v \<and>
          \<not> call_exits (sys_modules (registered w p)) v \<longrightarrow>
            (\<exists>e w'. load_agent w p eg = (Raised e, w'))) \<and>
         (call_exits (sys_modules (registered w p)) v \<longrightarrow>
            (\<exists>g e. load_agent w p eg = (Raised (GameMismatch g e), registered w p)) \<or>
            (\<exists>e w'. load_agent w p eg = (Propagated e, w') \<and> \<not> is_Exception e))"
proof -
  from assms(2) have a: "find_agent_class m = v"
    by (simp add: find_agent_class_def)
  with load_agent_evaluated [OF assms(1), of eg]
  have b: "load_agent w p eg = check_and_instantiate (registered w p) v eg"
    by simp
  from a b check_and_instantiate_unusable [of "registered w p" v eg]
    check_and_instantiate_fails [of "registered w p" v eg]
    check_and_instantiate_exits [of "registered w p" v eg]
  show ?thesis by simp
qed

theorem agent_name_takes_precedence_witness:
  "map_of shadowed_module ''Agent'' = Some (PyObj not_a_class) \<and>
   scan_classes shadowed_module (dir_module shadowed_module)
     = PyObj (user_class ''GoodBot'' None) \<and>
   find_agent_class shadowed_module = PyObj not_a_class \<and>
   (\<exists>e w'. load_agent (host [(''/agents/shadow.py'', source_file shadowed_module)])
      ''/agents/shadow.py'' None = (Raised e, w')) \<and>
   find_agent_class exiting_agent_module = PyObj exiting_class \<and>
   (\<exists>e w'. load_agent (host [(''/agents/exit.py'', source_file exiting_agent_module)])
      ''/agents/exit.py'' None = (Propagated e, w') \<and> \<not> is_Exception e)"
proof -
  let ?w = "host [(''/agents/shadow.py'', source_file shadowed_module)]"
  let ?v = "host [(''/agents/exit.py'', source_file exiting_agent_module)]"
  have a: "evaluates_to ?w ''/agents/shadow.py'' shadowed_module"
    by (simp add: example_defs)
  have b: "map_of shadowed_module ''Agent'' = Some (PyObj not_a_class)"
    by (simp add: shadowed_module_def)
  have c: "unusable (sys_modules (registered ?w ''/agents/shadow.py'')) (PyObj not_a_class) \<and>
      \<not> call_exits (sys_modules (registered ?w ''/agents/shadow.py'')) (PyObj not_a_class)"
    by (simp add: not_a_class_def)
  have d: "scan_classes shadowed_module (dir_module shadowed_module)
      = PyObj (user_class ''GoodBot'' None)"
    by (simp add: shadowed_module_def dir_module_def user_class_def not_a_class_def)
  note t = agent_name_takes_precedence [OF a b, of None]
  from t have e: "find_agent_class shadowed_module = PyObj not_a_class" by simp
  from t c have f: "\<exists>e w'. load_agent ?w ''/agents/shadow.py'' None = (Raised e, w')"
    by blast
  have g: "evaluates_to ?v ''/agents/exit.py'' exiting_agent_module"
    by (simp add: example_defs)
  have h: "map_of exiting_agent_module ''Agent'' = Some (PyObj exiting_class)"
    by (simp add: exiting_agent_module_def)
  have i: "call_exits (sys_modules (registered ?v ''/agents/exit.py'')) (PyObj exiting_class)"
    by (simp add: exiting_class_def)
  have j: "\<forall>g e. load_agent ?v ''/agents/exit.py'' None
      \<noteq> (Raised (GameMismatch g e), registered ?v ''/agents/exit.py'')"
    using load_agent_evaluated [OF g, of None] h
    by (simp add: find_agent_class_def check_and_instantiate_def instantiate_def
          exiting_class_def)
  note u = agent_name_takes_precedence [OF g h, of None]
  from u have k: "find_agent_class exiting_agent_module = PyObj exiting_class" by simp
  from u i j
  have l: "\<exists>e w'. load_agent ?v ''/agents/exit.py'' None = (Propagated e, w') \<and>
      \<not> is_Exception e"
    by blast
  from b d e f k l show ?thesis by simp
qed

text \<open>
  C10. When the candidate declares \<open>GAME = ""\<close> or \<open>expected_game\<close> is the empty
  string, the game check is skipped: \<open>load_agent\<close> does what it does without an
  expected game, never raises the mismatch error, and returns the instance when the
  candidate can be instantiated and has a callable \<open>on_turn\<close>, whatever the other
  side is.
\<close>

theorem falsy_tag_skips_game_check:
  assumes "evaluates_to w p m" and "find_agent_class m = PyObj c"
    and "GAME c = Some [] \<or> eg = Some []"
  shows "load_agent w p eg = load_agent w p None \<and>
         (\<forall>g e. fst (load_agent w p eg) \<noteq> Raised (GameMismatch g e)) \<and>
         (fst (call c (sys_modules (registered w p))) = CallReturns a \<and>
          on_turn_attr a = Callable
            \<longrightarrow> fst (load_agent w p eg) = Returned a)"
proof -
  have a: "load_agent w p eg = instantiate (registered w p) c"
    using load_agent_evaluated [OF assms(1), of eg] assms(2) check_skipped_when_falsy [OF assms(3)]
    by simp
  have b: "load_agent w p None = instantiate (registered w p) c"
    using load_agent_evaluated [OF assms(1), of None] assms(2)
    by (simp add: check_and_instantiate_def)
  show ?thesis
    unfolding a b
    by (auto simp: instantiate_def Let_def split: call_result.splits prod.splits)
qed

theorem falsy_tag_skips_game_check_witness:
  "fst (load_agent (host [(''/agents/blank.py'', source_file empty_tag_module)])
     ''/agents/blank.py'' (Some ''coin-flip''))
     = Returned \<lparr>made_by = User_id ''Agent'', on_turn_attr = Callable\<rparr> \<and>
   fst (load_agent (host [(''/agents/coin.py'', source_file coin_flip_module)])
     ''/agents/coin.py'' (Some []))
     = Returned \<lparr>made_by = User_id ''Agent'', on_turn_attr = Callable\<rparr>"
proof -
  let ?w = "host [(''/agents/blank.py'', source_file empty_tag_module)]"
  let ?v = "host [(''/agents/coin.py'', source_file coin_flip_module)]"
  let ?a = "\<lparr>made_by = User_id ''Agent'', on_turn_attr = Callable\<rparr>"
  have a: "evaluates_to ?w ''/agents/blank.py'' empty_tag_module"
    by (simp add: example_defs)
  have b: "find_agent_class empty_tag_module = PyObj (user_class ''Agent'' (Some []))"
    by (simp add: find_agent_class_def empty_tag_module_def)
  have c: "GAME (user_class ''Agent'' (Some [])) = Some [] \<or> Some ''coin-flip'' = Some []"
    by (simp add: user_class_def)
  have d: "evaluates_to ?v ''/agents/coin.py'' coin_flip_module"
    by (simp add: example_defs)
  have e: "find_agent_class coin_flip_module = PyObj (user_class ''Agent'' (Some ''coin-flip''))"
    by (simp add: find_agent_class_def coin_flip_module_def)
  have f: "GAME (user_class ''Agent'' (Some ''coin-flip'')) = Some [] \<or> Some [] = Some []"
    by simp
  from falsy_tag_skips_game_check [OF a b c, of ?a, THEN conjunct2, THEN conjunct2]
  have "fst (load_agent ?w ''/agents/blank.py'' (Some ''coin-flip'')) = Returned ?a"
    by (simp add: user_class_def)
  moreover from falsy_tag_skips_game_check [OF d e f, of ?a, THEN conjunct2, THEN conjunct2]
  have "fst (load_agent ?v ''/agents/coin.py'' (Some [])) = Returned ?a"
    by (simp add: user_class_def)
  ultimately show ?thesis by simp
qed

end
